theory Spec2Isabelle
  imports Main "HOL-Library.Multiset"
begin

section \<open>Values, errors and the state file\<close>

text \<open>
  \<^verbatim>\<open>bot.py\<close> keeps its baseline in the file \<^verbatim>\<open>transfers.json\<close>. What \<^verbatim>\<open>json.load\<close>
  hands to the program is a tree of Python values; \<open>json\<close> is that tree. A \<open>JObj\<close>
  holds the items of the decoded \<^verbatim>\<open>dict\<close> (its keys are distinct, as in any
  \<^verbatim>\<open>dict\<close>). A character of a \<open>string\<close> stands for one character of the Python
  string; every character the program inspects is ASCII. Numbers with a fraction are
  not part of the model: the program never writes one.
\<close>

datatype json =
    JNull
  | JBool bool
  | JInt int
  | JStr string
  | JArr "json list"
  | JObj "(string \<times> json) list"

text \<open>The exceptions that can leave a function of \<^verbatim>\<open>bot.py\<close>.\<close>

datatype error = OSError | TypeError | ValueError

text \<open>
  What \<^verbatim>\<open>open(STATE_FILE, 'r')\<close> followed by \<^verbatim>\<open>json.load\<close> meets:
  no file (\<^verbatim>\<open>FileNotFoundError\<close>), a file that cannot be opened or read for another
  reason (any other exception, which \<^verbatim>\<open>load_state\<close> does not catch), a file that is
  not JSON (\<^verbatim>\<open>JSONDecodeError\<close>), or a decoded document.
\<close>

datatype file_content = Missing | Unreadable | Invalid | Doc json

text \<open>
  The part of the outside world the program reads and changes: the file, whether
  \<^verbatim>\<open>open(STATE_FILE, 'w')\<close> succeeds, and a log of every document written
  (newest first), so that "no write happened" can be told from "the same content was
  written again".
\<close>

record world =
  state_file :: file_content
  writable :: bool
  writes :: "json list"

section \<open>escape\_markdown\<close>

definition escape_chars :: string where
  "escape_chars = ''_*[]()~`>#+-=|{}.!''"

definition escape_markdown :: "string \<Rightarrow> string" where
  "escape_markdown text =
     concat (map (\<lambda>char. if char \<in> set escape_chars then [CHR 0x5C, char] else [char]) text)"

text \<open>
  The escaping as the specification words it: one character at a time, a backslash in
  front of each member of the fixed set, every other character copied.
\<close>

definition markup_chars :: "char set" where
  "markup_chars =
     {CHR ''_'', CHR ''*'', CHR ''['', CHR '']'', CHR ''('', CHR '')'', CHR ''~'', CHR 0x60,
      CHR ''>'', CHR ''#'', CHR ''+'', CHR ''-'', CHR ''='', CHR ''|'', CHR ''{'', CHR ''}'',
      CHR ''.'', CHR ''!''}"

primrec escape_each :: "string \<Rightarrow> string" where
  "escape_each [] = []"
| "escape_each (c # cs) =
     (if c \<in> markup_chars then CHR 0x5C # c # escape_each cs else c # escape_each cs)"

section \<open>load\_state and save\_state\<close>

definition default_state :: json where
  "default_state = JObj [(''gameweek'', JNull), (''transfers'', JArr [])]"

fun is_dict :: "json \<Rightarrow> bool" where
  "is_dict (JObj kvs) = True"
| "is_dict _ = False"

fun dict_items :: "json \<Rightarrow> (string \<times> json) list" where
  "dict_items (JObj kvs) = kvs"
| "dict_items _ = []"

definition key_in :: "string \<Rightarrow> json \<Rightarrow> bool" where
  "key_in k d = (k \<in> fst ` set (dict_items d))"

text \<open>\<^verbatim>\<open>d.get(k, default)\<close> on a decoded dictionary.\<close>

definition dict_get :: "json \<Rightarrow> string \<Rightarrow> json \<Rightarrow> json" where
  "dict_get d k dflt = (case map_of (dict_items d) k of None \<Rightarrow> dflt | Some v \<Rightarrow> v)"

fun load_state :: "world \<Rightarrow> error + json" where
  "load_state w =
     (case state_file w of
        Missing \<Rightarrow> Inr default_state
      | Invalid \<Rightarrow> Inr default_state
      | Unreadable \<Rightarrow> Inl OSError
      | Doc data \<Rightarrow>
          if is_dict data \<and> key_in ''gameweek'' data \<and> key_in ''transfers'' data
          then Inr data
          else Inr default_state)"

text \<open>
  The document \<^verbatim>\<open>save_state\<close> builds. Each scraped transfer is the two-element list
  \<^verbatim>\<open>[p_out, p_in]\<close>; \<^verbatim>\<open>json.dump\<close> followed by \<^verbatim>\<open>json.load\<close> gives back the same
  tree for integers, strings and lists, so the file afterwards decodes to this value.
\<close>

definition transfer_json :: "string \<times> string \<Rightarrow> json" where
  "transfer_json t = JArr [JStr (fst t), JStr (snd t)]"

definition state_doc :: "int \<Rightarrow> (string \<times> string) list \<Rightarrow> json" where
  "state_doc gameweek transfers =
     JObj [(''gameweek'', JInt gameweek), (''transfers'', JArr (map transfer_json transfers))]"

text \<open>
  \<^verbatim>\<open>save_state\<close> has no handler: when the file cannot be opened for writing the
  exception leaves the function and the file stays as it was.
\<close>

definition save_state :: "int \<Rightarrow> (string \<times> string) list \<Rightarrow> world \<Rightarrow> error + world" where
  "save_state gameweek transfers w =
     (let state = state_doc gameweek transfers
      in if writable w then Inr (w\<lparr>state_file := Doc state, writes := state # writes w\<rparr>)
         else Inl OSError)"

section \<open>Python primitives used by check\_for\_new\_transfers\<close>

text \<open>
  \<^verbatim>\<open>int(s)\<close> on the token captured by the pattern \<^verbatim>\<open>(\d+)\<close>: a non-empty run of
  decimal digits. Anything else is answered with \<^verbatim>\<open>ValueError\<close>.
\<close>

definition is_digit :: "char \<Rightarrow> bool" where
  "is_digit c = (48 \<le> (of_char c :: nat) \<and> (of_char c :: nat) \<le> 57)"

definition digit_val :: "char \<Rightarrow> nat" where
  "digit_val c = of_char c - 48"

definition py_int :: "string \<Rightarrow> error + int" where
  "py_int s =
     (if s \<noteq> [] \<and> list_all is_digit s
      then Inr (int (foldl (\<lambda>acc c. 10 * acc + digit_val c) 0 s))
      else Inl ValueError)"

text \<open>The decimal text of an integer, as an f-string inserts it.\<close>

fun digits :: "nat \<Rightarrow> string" where
  "digits n =
     (if n < 10 then [char_of (48 + n)] else digits (n div 10) @ [char_of (48 + n mod 10)])"

declare digits.simps [simp del]

definition py_str :: "int \<Rightarrow> string" where
  "py_str i = (if i < 0 then CHR ''-'' # digits (nat (- i)) else digits (nat i))"

text \<open>
  \<^verbatim>\<open>current_gameweek != saved_gameweek\<close> with an \<^verbatim>\<open>int\<close> on the left and a decoded
  value on the right. Python compares numbers by value and \<^verbatim>\<open>bool\<close> is a subclass of
  \<^verbatim>\<open>int\<close>; an \<^verbatim>\<open>int\<close> never equals \<^verbatim>\<open>None\<close>, a string, a list or a dictionary.
\<close>

fun int_ne :: "int \<Rightarrow> json \<Rightarrow> bool" where
  "int_ne n (JInt m) = (n \<noteq> m)"
| "int_ne n (JBool b) = (n \<noteq> (if b then 1 else 0))"
| "int_ne n _ = True"

text \<open>
  Iterating a decoded value (\<^verbatim>\<open>for t in x\<close>, \<^verbatim>\<open>tuple(x)\<close>): a list yields its
  elements, a string its one-character strings, a dictionary its keys; \<^verbatim>\<open>None\<close>,
  booleans and integers raise \<^verbatim>\<open>TypeError\<close>.
\<close>

fun py_iter :: "json \<Rightarrow> error + json list" where
  "py_iter (JArr xs) = Inr xs"
| "py_iter (JStr s) = Inr (map (\<lambda>c. JStr [c]) s)"
| "py_iter (JObj kvs) = Inr (map (\<lambda>kv. JStr (fst kv)) kvs)"
| "py_iter _ = Inl TypeError"

text \<open>Lists and dictionaries cannot be hashed, so a tuple holding one cannot enter a set.\<close>

fun hashable :: "json \<Rightarrow> bool" where
  "hashable (JArr xs) = False"
| "hashable (JObj kvs) = False"
| "hashable _ = True"

definition tuple_key :: "json \<Rightarrow> error + json list" where
  "tuple_key t =
     (case py_iter t of
        Inl e \<Rightarrow> Inl e
      | Inr xs \<Rightarrow> if list_all hashable xs then Inr xs else Inl TypeError)"

fun tuple_keys :: "json list \<Rightarrow> error + json list list" where
  "tuple_keys [] = Inr []"
| "tuple_keys (t # ts) =
     (case tuple_key t of
        Inl e \<Rightarrow> Inl e
      | Inr k \<Rightarrow> (case tuple_keys ts of Inl e \<Rightarrow> Inl e | Inr ks \<Rightarrow> Inr (k # ks)))"

text \<open>
  \<^verbatim>\<open>seen_set = {tuple(t) for t in saved_transfers}\<close>: the tuples in the set, or the
  \<^verbatim>\<open>TypeError\<close> of the comprehension. Only membership in the result is used.
\<close>

definition seen_set :: "json \<Rightarrow> error + json list list" where
  "seen_set saved_transfers =
     (case py_iter saved_transfers of Inl e \<Rightarrow> Inl e | Inr ts \<Rightarrow> tuple_keys ts)"

text \<open>
  \<^verbatim>\<open>current_set = {tuple(t) for t in current_transfers}\<close>: duplicates collapse. A
  scraped transfer is a pair of strings, so the comprehension cannot fail.
\<close>

definition current_set :: "(string \<times> string) list \<Rightarrow> (string \<times> string) list" where
  "current_set current_transfers = remdups current_transfers"

text \<open>
  A tuple of two strings equals a tuple in \<^verbatim>\<open>seen_set\<close> exactly when that tuple has
  the same two strings as its elements.
\<close>

definition pair_key :: "string \<times> string \<Rightarrow> json list" where
  "pair_key t = [JStr (fst t), JStr (snd t)]"

definition set_minus :: "(string \<times> string) list \<Rightarrow> json list list \<Rightarrow> (string \<times> string) list" where
  "set_minus cur seen = filter (\<lambda>t. pair_key t \<notin> set seen) cur"

text \<open>
  \<^verbatim>\<open>for p_out, p_in in new_transfers\<close> walks a Python \<^verbatim>\<open>set\<close>. The order of that
  walk is the order of the slots of the hash table, and the hash of a string is
  salted anew in every interpreter process. \<open>slot\<close> stands for the position the
  running process gives each tuple; elements are visited by increasing slot.
\<close>

definition set_iter :: "(string \<times> string \<Rightarrow> nat) \<Rightarrow> (string \<times> string) list \<Rightarrow> (string \<times> string) list" where
  "set_iter slot xs = sort_key slot xs"

section \<open>Messages\<close>

definition nl :: string where
  "nl = [CHR 0x0A]"

definition bs :: string where
  "bs = [CHR 0x5C]"

text \<open>\<^verbatim>\<open>sep.join(parts)\<close>.\<close>

fun join :: "string \<Rightarrow> string list \<Rightarrow> string" where
  "join sep [] = []"
| "join sep [x] = x"
| "join sep (x # y # ys) = x @ sep @ join sep (y # ys)"

text \<open>
  The pictographs inside the literals of the source lie beyond the 8-bit characters;
  each is written as the bytes it has in the source file.
\<close>

definition sym_login_failed :: string where
  "sym_login_failed = [CHR 0xC3, CHR 0xA2, CHR 0xC5, CHR 0x92]"

definition sym_scraping_error :: string where
  "sym_scraping_error =
     [CHR 0xC3, CHR 0xA2, CHR 0xC5, CHR 0xA1, CHR 0xC2, CHR 0xA0, CHR 0xC3, CHR 0xAF, CHR 0xC2, CHR 0xB8]"

definition sym_first :: string where
  "sym_first = [CHR 0xC3, CHR 0xB0, CHR 0xC5, CHR 0xB8, CHR 0xC5, CHR 0xA1, CHR 0xE2, CHR 0x82, CHR 0xAC]"

definition sym_out :: string where
  "sym_out = [CHR 0xC3, CHR 0xB0, CHR 0xC5, CHR 0xB8, CHR 0xE2, CHR 0x80, CHR 0x9D, CHR 0xC2, CHR 0xB4]"

definition sym_in :: string where
  "sym_in = [CHR 0xC3, CHR 0xB0, CHR 0xC5, CHR 0xB8, CHR 0xC5, CHR 0xB8, CHR 0xC2, CHR 0xA2]"

definition sym_no_new :: string where
  "sym_no_new = [CHR 0xC3, CHR 0xA2, CHR 0xC5, CHR 0x93, CHR 0xE2, CHR 0x80, CHR 0xA6]"

definition sym_new :: string where
  "sym_new = [CHR 0xC3, CHR 0xB0, CHR 0xC5, CHR 0xB8, CHR 0xC5, CHR 0xA1, CHR 0xC2, CHR 0xA8]"

definition login_failed_message :: string where
  "login_failed_message =
     sym_login_failed @ '' *Login Failed*'' @ nl @ ''Could not log in to Fantasy Football Fix'' @ bs @ ''.''"

definition scraping_error_message :: string where
  "scraping_error_message =
     sym_scraping_error @ '' *Scraping Error*'' @ nl @ ''Could not find the current gameweek'' @ bs @ ''.''"

definition no_transfers_yet_message :: "int \<Rightarrow> string" where
  "no_transfers_yet_message gw =
     '' Gameweek has updated to *GW '' @ py_str gw @ ''*'' @ bs @ ''. No transfers made yet'' @ bs @ ''.''"

definition no_new_message :: "int \<Rightarrow> string" where
  "no_new_message gw =
     sym_no_new @ '' *No new transfers for GW '' @ py_str gw @ ''* since the last check'' @ bs @ ''.''"

text \<open>\<^verbatim>\<open>chip or 'None'\<close>: \<^verbatim>\<open>None\<close> and the empty string are both falsy.\<close>

definition chip_or_none :: "string option \<Rightarrow> string" where
  "chip_or_none chip = (case chip of None \<Rightarrow> ''None'' | Some c \<Rightarrow> if c = [] then ''None'' else c)"

definition chip_line :: "string option \<Rightarrow> string" where
  "chip_line chip = ''Chip Active: *'' @ escape_markdown (chip_or_none chip) @ ''*'' @ nl"

text \<open>The two lines appended for one transfer by the body of either \<^verbatim>\<open>for\<close> loop.\<close>

definition transfer_lines :: "string \<times> string \<Rightarrow> string list" where
  "transfer_lines t =
     [sym_out @ '' OUT: `'' @ escape_markdown (fst t) @ ''`'',
      sym_in @ '' IN: `'' @ escape_markdown (snd t) @ ''`'' @ nl]"

definition first_transfers_message :: "int \<Rightarrow> string option \<Rightarrow> (string \<times> string) list \<Rightarrow> string" where
  "first_transfers_message gw chip transfers =
     join nl
       ([sym_first @ '' *First Transfers for GW '' @ py_str gw @ '' Detected* '' @ sym_first @ nl,
         chip_line chip]
        @ concat (map transfer_lines transfers))"

definition new_transfers_message :: "int \<Rightarrow> string option \<Rightarrow> (string \<times> string) list \<Rightarrow> string" where
  "new_transfers_message gw chip transfers =
     join nl
       ([sym_new @ '' *New Transfers Detected for GW '' @ py_str gw @ ''* '' @ sym_new @ nl,
         chip_line chip,
         ''*New Transfers:*'' @ nl]
        @ concat (map transfer_lines transfers))"

section \<open>check\_for\_new\_transfers\<close>

text \<open>
  What the two collaborators return in one invocation: \<^verbatim>\<open>login_to_fix\<close> a boolean,
  \<^verbatim>\<open>scrape_target_transfers\<close> the triple of transfers, active chip and gameweek
  token. Both catch their own failures and answer \<^verbatim>\<open>False\<close> or
  \<^verbatim>\<open>([], None, None)\<close>.
\<close>

record observation =
  login_ok :: bool
  scraped_transfers :: "(string \<times> string) list"
  scraped_chip :: "string option"
  scraped_gameweek :: "string option"

type_synonym outcome = "string \<times> bool"

definition check_for_new_transfers ::
  "(string \<times> string \<Rightarrow> nat) \<Rightarrow> observation \<Rightarrow> world \<Rightarrow> error + (outcome \<times> world)" where
  "check_for_new_transfers slot obs w =
     (if \<not> login_ok obs then Inr ((login_failed_message, False), w)
      else
        let current_transfers = scraped_transfers obs; chip = scraped_chip obs in
        case scraped_gameweek obs of
          None \<Rightarrow> Inr ((scraping_error_message, False), w)
        | Some current_gameweek_str \<Rightarrow>
            (case py_int current_gameweek_str of
               Inl e \<Rightarrow> Inl e
             | Inr current_gameweek \<Rightarrow>
                 (case load_state w of
                    Inl e \<Rightarrow> Inl e
                  | Inr saved_state \<Rightarrow>
                      let saved_gameweek = dict_get saved_state ''gameweek'' JNull;
                          saved_transfers = dict_get saved_state ''transfers'' (JArr [])
                      in
                        if int_ne current_gameweek saved_gameweek then
                          (case save_state current_gameweek current_transfers w of
                             Inl e \<Rightarrow> Inl e
                           | Inr w' \<Rightarrow>
                               if current_transfers = []
                               then Inr ((no_transfers_yet_message current_gameweek, False), w')
                               else Inr ((first_transfers_message current_gameweek chip current_transfers,
                                          True), w'))
                        else
                          (case seen_set saved_transfers of
                             Inl e \<Rightarrow> Inl e
                           | Inr seen \<Rightarrow>
                               let new_transfers = set_minus (current_set current_transfers) seen in
                                 if new_transfers = []
                                 then Inr ((no_new_message current_gameweek, False), w)
                                 else
                                   (case save_state current_gameweek current_transfers w of
                                      Inl e \<Rightarrow> Inl e
                                    | Inr w' \<Rightarrow>
                                        Inr ((new_transfers_message current_gameweek chip
                                                (set_iter slot new_transfers), True), w'))))))"

section \<open>Outcomes in the vocabulary of the specification\<close>

text \<open>
  The specification names the five results of a reconciliation. \<open>render\<close> gives, for
  each name, the pair of message and noteworthy flag that the matching \<^verbatim>\<open>return\<close>
  of \<^verbatim>\<open>check_for_new_transfers\<close> produces, so that a theorem can say which outcome a
  call returned.
\<close>

datatype decision =
    LoginFailed
  | ExtractionFailed
  | PeriodRolledOver int "(string \<times> string) list" "string option"
  | NoNewTransfers int
  | NewTransfersFound int "(string \<times> string) list" "string option"

fun render :: "decision \<Rightarrow> outcome" where
  "render LoginFailed = (login_failed_message, False)"
| "render ExtractionFailed = (scraping_error_message, False)"
| "render (PeriodRolledOver gw pairs chip) =
     (if pairs = [] then (no_transfers_yet_message gw, False)
      else (first_transfers_message gw chip pairs, True))"
| "render (NoNewTransfers gw) = (no_new_message gw, False)"
| "render (NewTransfersFound gw new_pairs chip) = (new_transfers_message gw chip new_pairs, True)"


section \<open>Successive invocations\<close>


text \<open>An observed snapshot: login succeeded and the gameweek token was found.\<close>

definition observed :: "string \<Rightarrow> string option \<Rightarrow> (string \<times> string) list \<Rightarrow> observation" where
  "observed tok chip pairs =
     \<lparr>login_ok = True, scraped_transfers = pairs, scraped_chip = chip, scraped_gameweek = Some tok\<rparr>"

text \<open>A world whose state file holds the baseline of period \<open>gw\<close>.\<close>

definition baseline_world :: "int \<Rightarrow> (string \<times> string) list \<Rightarrow> world" where
  "baseline_world gw pairs = \<lparr>state_file = Doc (state_doc gw pairs), writable = True, writes = []\<rparr>"


section \<open>Two hash orders\<close>

text \<open>
  Two processes whose hash salts place the tuples \<^verbatim>\<open>('A', 'B')\<close> and
  \<^verbatim>\<open>('C', 'D')\<close> in opposite order in the table of a set.
\<close>

definition slot_ab_first :: "string \<times> string \<Rightarrow> nat" where
  "slot_ab_first t = (if t = (''A'', ''B'') then 0 else 1)"

definition slot_cd_first :: "string \<times> string \<Rightarrow> nat" where
  "slot_cd_first t = (if t = (''A'', ''B'') then 1 else 0)"

section \<open>Sequences of snapshots that keep the baseline\<close>


section \<open>Facts about the primitives\<close>

lemma key_in_state_doc:
  "is_dict (state_doc g ps)" "key_in ''gameweek'' (state_doc g ps)" "key_in ''transfers'' (state_doc g ps)"
  by (simp_all add: state_doc_def key_in_def)

lemma load_state_state_doc:
  "state_file w = Doc (state_doc g ps) \<Longrightarrow> load_state w = Inr (state_doc g ps)"
  by (simp add: key_in_state_doc)

lemma load_state_Missing:
  "state_file w = Missing \<Longrightarrow> load_state w = Inr default_state"
  by simp

lemma dict_get_state_doc:
  "dict_get (state_doc g ps) ''gameweek'' d = JInt g"
  "dict_get (state_doc g ps) ''transfers'' d = JArr (map transfer_json ps)"
  by (simp_all add: state_doc_def dict_get_def)


lemma tuple_keys_transfer_json:
  "tuple_keys (map transfer_json ps) = Inr (map pair_key ps)"
  by (induction ps) (simp_all add: transfer_json_def pair_key_def tuple_key_def)

lemma seen_set_transfer_json:
  "seen_set (JArr (map transfer_json ps)) = Inr (map pair_key ps)"
  by (simp add: seen_set_def tuple_keys_transfer_json)

lemma pair_key_eq [simp]: "pair_key s = pair_key t \<longleftrightarrow> s = t"
  by (cases s; cases t) (simp add: pair_key_def)

lemma pair_key_mem [simp]: "pair_key t \<in> pair_key ` A \<longleftrightarrow> t \<in> A"
  by auto

lemma set_set_minus:
  "set (set_minus (current_set cur) seen) = set cur - {t. pair_key t \<in> set seen}"
  by (auto simp: set_minus_def current_set_def)


lemma set_minus_empty_iff:
  "set_minus (current_set cur) seen = [] \<longleftrightarrow> set cur - {t. pair_key t \<in> set seen} = {}"
  using set_set_minus [of cur seen] by (metis set_empty)


lemma seen_pairs_collect: "{t. pair_key t \<in> set (map pair_key ps)} = set ps"
  by auto

lemma save_state_writable:
  "writable w \<Longrightarrow> save_state g ps w =
     Inr (w\<lparr>state_file := Doc (state_doc g ps), writes := state_doc g ps # writes w\<rparr>)"
  by (simp add: save_state_def Let_def)


text \<open>The body of the function once login, token and load have succeeded.\<close>

lemma check_observed:
  assumes "login_ok obs" "scraped_gameweek obs = Some tok" "py_int tok = Inr gw"
    and "load_state w = Inr saved"
  shows "check_for_new_transfers slot obs w =
     (if int_ne gw (dict_get saved ''gameweek'' JNull) then
        (case save_state gw (scraped_transfers obs) w of
           Inl e \<Rightarrow> Inl e
         | Inr w' \<Rightarrow> Inr (render (PeriodRolledOver gw (scraped_transfers obs) (scraped_chip obs)), w'))
      else
        (case seen_set (dict_get saved ''transfers'' (JArr [])) of
           Inl e \<Rightarrow> Inl e
         | Inr seen \<Rightarrow>
             if set_minus (current_set (scraped_transfers obs)) seen = []
             then Inr (render (NoNewTransfers gw), w)
             else (case save_state gw (scraped_transfers obs) w of
                     Inl e \<Rightarrow> Inl e
                   | Inr w' \<Rightarrow>
                       Inr (render (NewTransfersFound gw
                              (set_iter slot (set_minus (current_set (scraped_transfers obs)) seen))
                              (scraped_chip obs)), w'))))"
  using assms unfolding check_for_new_transfers_def
  by (simp add: Let_def split: sum.splits del: load_state.simps)

lemma py_int_examples: "py_int ''5'' = Inr 5" "py_int ''05'' = Inr 5" "py_int ''6'' = Inr 6"
  by (simp_all add: py_int_def is_digit_def digit_val_def)

section \<open>The escaping function\<close>

text \<open>
  C9. For every input string, \<^verbatim>\<open>escape_markdown\<close> returns the string in which each
  character of the fixed set \<^verbatim>\<open>_*[]()~`>#+-=|{}.!\<close> is replaced by a backslash
  followed by that character, one character at a time, and every other character is
  left as it is.
\<close>

theorem escape_markdown_spec: "escape_markdown s = escape_each s"
  by (induction s) (simp_all add: escape_markdown_def escape_chars_def markup_chars_def)

section \<open>Reconciliation within one gameweek\<close>



section \<open>A new gameweek\<close>



section \<open>Failed login and failed extraction\<close>

text \<open>
  C5. When login fails, or login succeeds and no gameweek token was found, the call
  returns the matching failure outcome, not noteworthy, and the world it returns is
  the world it was given: the file is as before and nothing was written.
\<close>

theorem failure_leaves_state:
  "(\<not> login_ok obs \<longrightarrow>
      check_for_new_transfers slot obs w = Inr (render LoginFailed, w))
   \<and> (login_ok obs \<and> scraped_gameweek obs = None \<longrightarrow>
      check_for_new_transfers slot obs w = Inr (render ExtractionFailed, w))
   \<and> snd (render LoginFailed) = False \<and> snd (render ExtractionFailed) = False"
  by (simp add: check_for_new_transfers_def)

theorem failure_leaves_state_witness:
  "\<not> login_ok \<lparr>login_ok = False, scraped_transfers = [], scraped_chip = None, scraped_gameweek = None\<rparr>
   \<and> check_for_new_transfers (\<lambda>t. 0)
        \<lparr>login_ok = False, scraped_transfers = [], scraped_chip = None, scraped_gameweek = None\<rparr>
        (baseline_world 5 [(''X'', ''Y'')])
      = Inr ((login_failed_message, False), baseline_world 5 [(''X'', ''Y'')])
   \<and> login_ok \<lparr>login_ok = True, scraped_transfers = [], scraped_chip = None, scraped_gameweek = None\<rparr>
   \<and> scraped_gameweek
        \<lparr>login_ok = True, scraped_transfers = [], scraped_chip = None, scraped_gameweek = None\<rparr> = None
   \<and> check_for_new_transfers (\<lambda>t. 0)
        \<lparr>login_ok = True, scraped_transfers = [], scraped_chip = None, scraped_gameweek = None\<rparr>
        (baseline_world 5 [(''X'', ''Y'')])
      = Inr ((scraping_error_message, False), baseline_world 5 [(''X'', ''Y'')])"
  using
    failure_leaves_state [of
      "\<lparr>login_ok = False, scraped_transfers = [], scraped_chip = None, scraped_gameweek = None\<rparr>"
      "\<lambda>t. 0" "baseline_world 5 [(''X'', ''Y'')]"]
    failure_leaves_state [of
      "\<lparr>login_ok = True, scraped_transfers = [], scraped_chip = None, scraped_gameweek = None\<rparr>"
      "\<lambda>t. 0" "baseline_world 5 [(''X'', ''Y'')]"]
  by simp

section \<open>Loading the state\<close>



lemma check_same_period:
  assumes "login_ok obs" and "scraped_gameweek obs = Some tok" and "py_int tok = Inr gw"
    and "state_file w = Doc (state_doc gw persisted)"
  shows "check_for_new_transfers slot obs w =
      (if set (scraped_transfers obs) \<subseteq> set persisted then Inr (render (NoNewTransfers gw), w)
       else (case save_state gw (scraped_transfers obs) w of
               Inl e \<Rightarrow> Inl e
             | Inr w' \<Rightarrow>
                 Inr (render (NewTransfersFound gw
                        (set_iter slot (set_minus (current_set (scraped_transfers obs))
                                          (map pair_key persisted)))
                        (scraped_chip obs)), w')))"
proof -
  have ld: "load_state w = Inr (state_doc gw persisted)"
    using assms(4) by (rule load_state_state_doc)
  have e: "set_minus (current_set (scraped_transfers obs)) (map pair_key persisted) = []
      \<longleftrightarrow> set (scraped_transfers obs) \<subseteq> set persisted"
    by (simp add: set_minus_empty_iff seen_pairs_collect)
  show ?thesis
    by (simp add: check_observed [OF assms(1-3) ld] dict_get_state_doc seen_set_transfer_json e
          del: render.simps)
qed

lemma recheck_written:
  assumes "login_ok obs" and "scraped_gameweek obs = Some tok" and "py_int tok = Inr gw"
    and "state_file w = Doc (state_doc gw (scraped_transfers obs))"
  shows "check_for_new_transfers slot obs w = Inr ((no_new_message gw, False), w)"
  by (simp add: check_same_period [OF assms])

section \<open>Checking the same snapshot twice\<close>

text \<open>
  C4. Whenever a call returns an outcome, a second call with the same observation on
  the world the first call left returns an outcome that is not noteworthy and leaves
  that world as it is. This holds for every observation, state file and hash order
  of either process.
\<close>

theorem second_check_not_noteworthy:
  assumes "check_for_new_transfers slot obs w = Inr (out, w1)"
  shows "\<exists>msg. check_for_new_transfers slot' obs w1 = Inr ((msg, False), w1)"
proof (cases "login_ok obs")
  case False
  then show ?thesis using assms by (auto simp add: check_for_new_transfers_def)
next
  case lg: True
  show ?thesis
  proof (cases "scraped_gameweek obs")
    case None
    then show ?thesis using assms lg by (auto simp add: check_for_new_transfers_def)
  next
    case (Some tok)
    from assms lg Some obtain gw where gw: "py_int tok = Inr gw"
      by (cases "py_int tok") (simp_all add: check_for_new_transfers_def)
    from assms lg Some gw obtain saved where ld: "load_state w = Inr saved"
      by (cases "load_state w") (simp_all add: check_for_new_transfers_def del: load_state.simps)
    note body = check_observed [OF lg Some gw ld]
    let ?cur = "scraped_transfers obs"
    have written: ?thesis if "save_state gw ?cur w = Inr w1"
    proof -
      from that have "state_file w1 = Doc (state_doc gw ?cur)"
        by (auto simp: save_state_def Let_def split: if_splits)
      from recheck_written [OF lg Some gw this] show ?thesis by blast
    qed
    show ?thesis
    proof (cases "int_ne gw (dict_get saved ''gameweek'' JNull)")
      case True
      with assms body have "save_state gw ?cur w = Inr w1"
        by (cases "save_state gw ?cur w") (simp_all del: render.simps)
      then show ?thesis by (rule written)
    next
      case same: False
      from assms body same obtain seen
        where seen: "seen_set (dict_get saved ''transfers'' (JArr [])) = Inr seen"
        by (cases "seen_set (dict_get saved ''transfers'' (JArr []))") (simp_all del: render.simps)
      show ?thesis
      proof (cases "set_minus (current_set ?cur) seen = []")
        case True
        with assms body same seen have "w1 = w" by (simp del: render.simps)
        moreover have "check_for_new_transfers slot' obs w = Inr ((no_new_message gw, False), w)"
          using same seen True by (simp add: check_observed [OF lg Some gw ld, of slot'])
        ultimately show ?thesis by blast
      next
        case False
        with assms body same seen have "save_state gw ?cur w = Inr w1"
          by (cases "save_state gw ?cur w") (simp_all del: render.simps)
        then show ?thesis by (rule written)
      qed
    qed
  qed
qed

theorem second_check_not_noteworthy_witness:
  "check_for_new_transfers (\<lambda>t. 0) (observed ''5'' None [(''X'', ''Y''), (''P'', ''Q'')])
      (baseline_world 5 [(''X'', ''Y'')])
    = Inr ((new_transfers_message 5 None [(''P'', ''Q'')], True),
           \<lparr>state_file = Doc (state_doc 5 [(''X'', ''Y''), (''P'', ''Q'')]), writable = True,
            writes = [state_doc 5 [(''X'', ''Y''), (''P'', ''Q'')]]\<rparr>)
   \<and> (\<exists>msg. check_for_new_transfers (\<lambda>t. 1) (observed ''5'' None [(''X'', ''Y''), (''P'', ''Q'')])
         \<lparr>state_file = Doc (state_doc 5 [(''X'', ''Y''), (''P'', ''Q'')]), writable = True,
          writes = [state_doc 5 [(''X'', ''Y''), (''P'', ''Q'')]]\<rparr>
        = Inr ((msg, False),
               \<lparr>state_file = Doc (state_doc 5 [(''X'', ''Y''), (''P'', ''Q'')]), writable = True,
                writes = [state_doc 5 [(''X'', ''Y''), (''P'', ''Q'')]]\<rparr>))"
proof -
  let ?obs = "observed ''5'' None [(''X'', ''Y''), (''P'', ''Q'')]"
  let ?w = "baseline_world 5 [(''X'', ''Y'')]"
  have o: "login_ok ?obs" "scraped_gameweek ?obs = Some ''5''"
    "scraped_transfers ?obs = [(''X'', ''Y''), (''P'', ''Q'')]" "scraped_chip ?obs = None"
    by (simp_all add: observed_def)
  have w: "state_file ?w = Doc (state_doc 5 [(''X'', ''Y'')])" "writable ?w"
    by (simp_all add: baseline_world_def)
  have first: "check_for_new_transfers (\<lambda>t. 0) ?obs ?w
    = Inr ((new_transfers_message 5 None [(''P'', ''Q'')], True),
           \<lparr>state_file = Doc (state_doc 5 [(''X'', ''Y''), (''P'', ''Q'')]), writable = True,
            writes = [state_doc 5 [(''X'', ''Y''), (''P'', ''Q'')]]\<rparr>)"
    by (simp add: check_same_period [OF o(1) o(2) py_int_examples(1) w(1)] o
          save_state_writable [OF w(2)] set_minus_def current_set_def set_iter_def)
       (simp add: baseline_world_def)
  from second_check_not_noteworthy [OF first, of "\<lambda>t. 1"] first show ?thesis by blast
qed



lemma py_str_5: "py_str 5 = ''5''"
  by code_simp

lemma escape_markdown_letters:
  "escape_markdown ''A'' = ''A''" "escape_markdown ''B'' = ''B''"
  "escape_markdown ''C'' = ''C''" "escape_markdown ''D'' = ''D''"
  "escape_markdown ''None'' = ''None''"
  by (simp_all add: escape_markdown_def escape_chars_def)

section \<open>The gameweek token\<close>



section \<open>Exceptions that leave the entry point\<close>




section \<open>The order of the displayed delta\<close>

text \<open>
  C8. The same snapshot against the same stored baseline, in two processes with
  different hash orders: both report the same two new pairs and write the same file,
  but the messages list the pairs in opposite order and are different strings.
\<close>

theorem display_order_follows_hash:
  "check_for_new_transfers slot_ab_first (observed ''5'' None [(''A'', ''B''), (''C'', ''D'')])
      (baseline_world 5 [])
    = Inr ((new_transfers_message 5 None [(''A'', ''B''), (''C'', ''D'')], True),
           \<lparr>state_file = Doc (state_doc 5 [(''A'', ''B''), (''C'', ''D'')]), writable = True,
            writes = [state_doc 5 [(''A'', ''B''), (''C'', ''D'')]]\<rparr>)
   \<and> check_for_new_transfers slot_cd_first (observed ''5'' None [(''A'', ''B''), (''C'', ''D'')])
      (baseline_world 5 [])
    = Inr ((new_transfers_message 5 None [(''C'', ''D''), (''A'', ''B'')], True),
           \<lparr>state_file = Doc (state_doc 5 [(''A'', ''B''), (''C'', ''D'')]), writable = True,
            writes = [state_doc 5 [(''A'', ''B''), (''C'', ''D'')]]\<rparr>)
   \<and> new_transfers_message 5 None [(''A'', ''B''), (''C'', ''D'')]
      \<noteq> new_transfers_message 5 None [(''C'', ''D''), (''A'', ''B'')]"
proof -
  let ?o = "observed ''5'' None [(''A'', ''B''), (''C'', ''D'')]"
  let ?w = "baseline_world 5 []"
  have o: "login_ok ?o" "scraped_gameweek ?o = Some ''5''"
    "scraped_transfers ?o = [(''A'', ''B''), (''C'', ''D'')]" "scraped_chip ?o = None"
    by (simp_all add: observed_def)
  have w: "state_file ?w = Doc (state_doc 5 [])" "writable ?w"
    by (simp_all add: baseline_world_def)
  note body = check_same_period [OF o(1) o(2) py_int_examples(1) w(1)]
  have r1: "check_for_new_transfers slot_ab_first ?o ?w
    = Inr ((new_transfers_message 5 None [(''A'', ''B''), (''C'', ''D'')], True),
           \<lparr>state_file = Doc (state_doc 5 [(''A'', ''B''), (''C'', ''D'')]), writable = True,
            writes = [state_doc 5 [(''A'', ''B''), (''C'', ''D'')]]\<rparr>)"
    by (simp add: body o save_state_writable [OF w(2)] set_minus_def current_set_def set_iter_def
          slot_ab_first_def)
       (simp add: baseline_world_def)
  have r2: "check_for_new_transfers slot_cd_first ?o ?w
    = Inr ((new_transfers_message 5 None [(''C'', ''D''), (''A'', ''B'')], True),
           \<lparr>state_file = Doc (state_doc 5 [(''A'', ''B''), (''C'', ''D'')]), writable = True,
            writes = [state_doc 5 [(''A'', ''B''), (''C'', ''D'')]]\<rparr>)"
    by (simp add: body o save_state_writable [OF w(2)] set_minus_def current_set_def set_iter_def
          slot_cd_first_def)
       (simp add: baseline_world_def)
  have ne: "new_transfers_message 5 None [(''A'', ''B''), (''C'', ''D'')]
      \<noteq> new_transfers_message 5 None [(''C'', ''D''), (''A'', ''B'')]"
    by (simp add: new_transfers_message_def transfer_lines_def escape_markdown_letters py_str_5
          chip_line_def chip_or_none_def nl_def)
  from r1 r2 ne show ?thesis by blast
qed




section \<open>Successive checks within one gameweek\<close>




end
